theory Spec2Isabelle
  imports Main
begin

section \<open>Strings of the host language\<close>

text \<open>
  A string of the program is a \<^typ>\<open>string\<close>; one \<^typ>\<open>char\<close> stands for one code unit,
  so the model covers strings whose code units fit in eight bits. The characters that
  cannot be written inside a string literal are named here.
\<close>

definition backslash :: char where "backslash = CHR 0x5C"
definition backtick :: char where "backtick = CHR 0x60"
definition apostrophe :: char where "apostrophe = CHR 0x27"
definition dquote :: char where "dquote = CHR 0x22"
definition line_feed :: char where "line_feed = CHR 0x0A"
definition carriage_return :: char where "carriage_return = CHR 0x0D"

text \<open>\<^verbatim>\<open>s.startsWith(p)\<close> and \<^verbatim>\<open>s.endsWith(p)\<close>.\<close>

fun startsWith :: "string \<Rightarrow> string \<Rightarrow> bool" where
  "startsWith s [] = True"
| "startsWith [] (p # ps) = False"
| "startsWith (c # cs) (p # ps) = (c = p \<and> startsWith cs ps)"

definition endsWith :: "string \<Rightarrow> string \<Rightarrow> bool" where
  "endsWith s p = startsWith (rev s) (rev p)"

text \<open>\<^verbatim>\<open>s.includes(p)\<close>.\<close>

fun str_includes :: "string \<Rightarrow> string \<Rightarrow> bool" where
  "str_includes [] p = (p = [])"
| "str_includes (c # cs) p = (startsWith (c # cs) p \<or> str_includes cs p)"

text \<open>
  \<^verbatim>\<open>s.replace(/c/g, r)\<close> for a single character \<open>c\<close> and a replacement text \<open>r\<close>
  without \<^verbatim>\<open>$\<close>: every occurrence of \<open>c\<close> becomes \<open>r\<close>.
\<close>

definition replace_all_char :: "char \<Rightarrow> string \<Rightarrow> string \<Rightarrow> string" where
  "replace_all_char c r s = concat (map (\<lambda>x. if x = c then r else [x]) s)"

text \<open>
  \<^verbatim>\<open>s.replace(pat, repl)\<close> with a string pattern replaces the first occurrence only, and
  the replacement text is expanded first (GetSubstitution of the language standard):
  \<^verbatim>\<open>$$\<close> is a dollar sign, \<^verbatim>\<open>$&\<close> the matched text, \<^verbatim>\<open>$`\<close> the text before the match and
  \<^verbatim>\<open>$'\<close> the text after it. A string pattern has no capture groups, so \<^verbatim>\<open>$1\<close> and the
  like stay as they are.
\<close>

fun getSubstitution :: "string \<Rightarrow> string \<Rightarrow> string \<Rightarrow> string \<Rightarrow> string" where
  "getSubstitution matched preceding following [] = []"
| "getSubstitution matched preceding following [c] = [c]"
| "getSubstitution matched preceding following (c # d # r) =
     (if c = CHR ''$'' then
        (if d = CHR ''$'' then CHR ''$'' # getSubstitution matched preceding following r
         else if d = CHR ''&'' then matched @ getSubstitution matched preceding following r
         else if d = backtick then preceding @ getSubstitution matched preceding following r
         else if d = apostrophe then following @ getSubstitution matched preceding following r
         else c # getSubstitution matched preceding following (d # r))
      else c # getSubstitution matched preceding following (d # r))"

fun replace_from :: "string \<Rightarrow> string \<Rightarrow> string \<Rightarrow> string \<Rightarrow> string" where
  "replace_from preceding [] pat repl =
     (if pat = [] then getSubstitution [] preceding [] repl else [])"
| "replace_from preceding (c # cs) pat repl =
     (if startsWith (c # cs) pat
      then getSubstitution pat preceding (drop (length pat) (c # cs)) repl
             @ drop (length pat) (c # cs)
      else c # replace_from (preceding @ [c]) cs pat repl)"

definition replace :: "string \<Rightarrow> string \<Rightarrow> string \<Rightarrow> string" where
  "replace s pat repl = replace_from [] s pat repl"

text \<open>\<^verbatim>\<open>c.toUpperCase()\<close> on the letters a to z; other characters of the model are kept.\<close>

definition toUpperCase :: "char \<Rightarrow> char" where
  "toUpperCase c =
     (case map_of (zip ''abcdefghijklmnopqrstuvwxyz'' ''ABCDEFGHIJKLMNOPQRSTUVWXYZ'') c of
        None \<Rightarrow> c | Some u \<Rightarrow> u)"

section \<open>Regular expressions of the host language\<close>

text \<open>
  \<^verbatim>\<open>new RegExp(src).test(s)\<close>, for the part of the syntax that the filter can produce
  from patterns of ordinary characters, dots, stars, question marks, plus signs and
  backslashes: literal characters, the dot (any character but a line terminator), an
  escaped syntax character, the postfix quantifiers star and plus, a caret in front and
  a dollar sign at the end. A source with a quantifier that has nothing to repeat, or
  with a backslash at its end, is a \<open>SyntaxError\<close>, which the constructor throws. Every
  other construct (groups, classes, alternation, braces, class escapes, lazy
  quantifiers, assertions elsewhere) is outside the model: \<open>Unmodelled\<close>.
\<close>

datatype regexp_error = SyntaxError | Unmodelled

datatype regexp_token = TChar char | TDot | TStar | TPlus | TCaret | TDollar

definition syntax_characters :: "char list" where
  "syntax_characters = ''^$.*+?()[]{}|'' @ [backslash]"

fun tokens :: "string \<Rightarrow> regexp_error + regexp_token list" where
  "tokens [] = Inr []"
| "tokens (c # r) =
     (if c = backslash then
        (case r of
           [] \<Rightarrow> Inl SyntaxError
         | e # r' \<Rightarrow>
             if e \<in> set syntax_characters \<or> e = CHR ''/''
             then map_sum id ((#) (TChar e)) (tokens r')
             else Inl Unmodelled)
      else if c = CHR ''.'' then map_sum id ((#) TDot) (tokens r)
      else if c = CHR ''*'' then map_sum id ((#) TStar) (tokens r)
      else if c = CHR ''+'' then map_sum id ((#) TPlus) (tokens r)
      else if c = CHR ''^'' then map_sum id ((#) TCaret) (tokens r)
      else if c = CHR ''$'' then map_sum id ((#) TDollar) (tokens r)
      else if c \<in> set syntax_characters then Inl Unmodelled
      else map_sum id ((#) (TChar c)) (tokens r))"

datatype regexp_atom = Lit char | AnyChar

datatype regexp_quantifier = Once | Star | Plus

type_synonym regexp_term = "regexp_atom \<times> regexp_quantifier"

fun terms :: "regexp_token list \<Rightarrow> regexp_error + regexp_term list" where
  "terms [] = Inr []"
| "terms (TStar # ts) = Inl SyntaxError"
| "terms (TPlus # ts) = Inl SyntaxError"
| "terms (TCaret # ts) = Inl Unmodelled"
| "terms (TDollar # ts) = Inl Unmodelled"
| "terms (TChar c # TStar # ts) = map_sum id ((#) (Lit c, Star)) (terms ts)"
| "terms (TChar c # TPlus # ts) = map_sum id ((#) (Lit c, Plus)) (terms ts)"
| "terms (TChar c # ts) = map_sum id ((#) (Lit c, Once)) (terms ts)"
| "terms (TDot # TStar # ts) = map_sum id ((#) (AnyChar, Star)) (terms ts)"
| "terms (TDot # TPlus # ts) = map_sum id ((#) (AnyChar, Plus)) (terms ts)"
| "terms (TDot # ts) = map_sum id ((#) (AnyChar, Once)) (terms ts)"

fun atom_matches :: "regexp_atom \<Rightarrow> char \<Rightarrow> bool" where
  "atom_matches (Lit c) x = (x = c)"
| "atom_matches AnyChar x = (x \<noteq> line_feed \<and> x \<noteq> carriage_return)"

text \<open>Whether the whole of a string is matched by a sequence of quantified atoms.\<close>

fun matches_all :: "regexp_term list \<Rightarrow> string \<Rightarrow> bool" where
  "matches_all [] s = (s = [])"
| "matches_all ((a, Once) # r) [] = False"
| "matches_all ((a, Once) # r) (x # xs) = (atom_matches a x \<and> matches_all r xs)"
| "matches_all ((a, Star) # r) [] = matches_all r []"
| "matches_all ((a, Star) # r) (x # xs) =
     (matches_all r (x # xs) \<or> (atom_matches a x \<and> matches_all ((a, Star) # r) xs))"
| "matches_all ((a, Plus) # r) [] = False"
| "matches_all ((a, Plus) # r) (x # xs) =
     (atom_matches a x \<and> matches_all ((a, Star) # r) xs)"

text \<open>
  \<^verbatim>\<open>new RegExp(src).test(s)\<close> for a source of the shape \<^verbatim>\<open>^...$\<close>; a source that is
  not anchored at both ends, or has an assertion inside, is outside the model.
\<close>

definition RegExp_test :: "string \<Rightarrow> string \<Rightarrow> regexp_error + bool" where
  "RegExp_test src s =
     (case tokens src of
        Inl e \<Rightarrow> Inl e
      | Inr ts \<Rightarrow>
          (case ts of
             TCaret # body \<Rightarrow>
               if body \<noteq> [] \<and> last body = TDollar
                  \<and> TCaret \<notin> set (butlast body) \<and> TDollar \<notin> set (butlast body)
               then map_sum id (\<lambda>r. matches_all r s) (terms (butlast body))
               else Inl Unmodelled
           | _ \<Rightarrow> Inl Unmodelled))"

section \<open>Settings and files\<close>

text \<open>
  The fields of \<^verbatim>\<open>LoomSettings\<close> that the coordination core reads. An unset remote is
  the empty string, which the conditions of the program treat as false.
\<close>

record LoomSettings =
  remoteUrl :: string
  branch :: string
  autoSync :: bool
  commitMessageTemplate :: string
  debounceDelay :: nat
  excludePatterns :: "string list"
  autoPush :: bool
  showNotifications :: bool

definition DEFAULT_SETTINGS :: LoomSettings where
  "DEFAULT_SETTINGS =
     \<lparr> remoteUrl = [], branch = ''main'', autoSync = True,
       commitMessageTemplate = ''{action}: {filename}'', debounceDelay = 500,
       excludePatterns =
         [''.obsidian/workspace.json'', ''.obsidian/workspace-mobile.json'',
          ''.obsidian/cache'', ''*.tmp'', ''*~'', ''.DS_Store'', ''Thumbs.db''],
       autoPush = False, showNotifications = True \<rparr>"

text \<open>The host's \<^verbatim>\<open>TFile\<close>: the path inside the vault and the file's name.\<close>

record TFile =
  path :: string
  name :: string

datatype FileChangeAction = Create | Modify | Delete | Rename

section \<open>The change filter (file-watcher.ts)\<close>

text \<open>
  \<^verbatim>\<open>matchesPattern\<close>: the pattern is rewritten by three replacements in a row (dot,
  star, question mark) and the result, between a caret and a dollar sign, is compiled
  as a regular expression. No other character of the pattern is escaped.
\<close>

definition matchesPattern :: "string \<Rightarrow> string \<Rightarrow> regexp_error + bool" where
  "matchesPattern filePath pattern =
     (let regexPattern =
            replace_all_char (CHR ''?'') ''.''
              (replace_all_char (CHR ''*'') ''.*''
                 (replace_all_char (CHR ''.'') [backslash, CHR ''.''] pattern))
      in RegExp_test (''^'' @ regexPattern @ ''$'') filePath)"

text \<open>
  The loop over the exclusion patterns returns at the first match; an exception of the
  regular expression constructor leaves the loop and the function.
\<close>

fun matchesAnyPattern :: "string \<Rightarrow> string list \<Rightarrow> regexp_error + bool" where
  "matchesAnyPattern filePath [] = Inr False"
| "matchesAnyPattern filePath (pattern # rest) =
     (case matchesPattern filePath pattern of
        Inl e \<Rightarrow> Inl e
      | Inr True \<Rightarrow> Inr True
      | Inr False \<Rightarrow> matchesAnyPattern filePath rest)"

text \<open>
  The six fixed expressions \<^verbatim>\<open>/\.tmp$/\<close>, \<^verbatim>\<open>/~$/\<close>, \<^verbatim>\<open>/\.DS_Store$/\<close>,
  \<^verbatim>\<open>/^Thumbs\.db$/\<close>, \<^verbatim>\<open>/\.swp$/\<close>, \<^verbatim>\<open>/\.swo$/\<close>: five suffix tests and one test
  for the whole path.
\<close>

definition tempPatterns :: "string \<Rightarrow> bool" where
  "tempPatterns filePath \<longleftrightarrow>
     endsWith filePath ''.tmp'' \<or> endsWith filePath ''~''
     \<or> endsWith filePath ''.DS_Store'' \<or> filePath = ''Thumbs.db''
     \<or> endsWith filePath ''.swp'' \<or> endsWith filePath ''.swo''"

definition shouldIgnoreFile :: "LoomSettings \<Rightarrow> TFile \<Rightarrow> regexp_error + bool" where
  "shouldIgnoreFile settings file =
     (let filePath = path file in
      case matchesAnyPattern filePath (excludePatterns settings) of
        Inl e \<Rightarrow> Inl e
      | Inr True \<Rightarrow> Inr True
      | Inr False \<Rightarrow> Inr (startsWith filePath ''.git/'' \<or> tempPatterns filePath))"

text \<open>
  The glob semantics of the specification, written from its words: anchored match of
  the whole path, a star for any run of characters, a question mark for any single
  character, every other character (the dot too) for itself.
\<close>

fun glob_match :: "string \<Rightarrow> string \<Rightarrow> bool" where
  "glob_match [] s = (s = [])"
| "glob_match (p # ps) [] = (p = CHR ''*'' \<and> glob_match ps [])"
| "glob_match (p # ps) (x # xs) =
     (if p = CHR ''*'' then glob_match ps (x # xs) \<or> glob_match (p # ps) xs
      else (p = CHR ''?'' \<or> p = x) \<and> glob_match ps xs)"

section \<open>Commit messages (utils.ts, git-service.ts, sync-manager.ts)\<close>

text \<open>\<^verbatim>\<open>sanitizeFilename\<close>: every character of the class \<^verbatim>\<open>[<>:"|?*]\<close> becomes an underscore.\<close>

definition unsafe_characters :: "char list" where
  "unsafe_characters = ''<>:|?*'' @ [dquote]"

definition sanitizeFilename :: "string \<Rightarrow> string" where
  "sanitizeFilename filename =
     map (\<lambda>c. if c \<in> set unsafe_characters then CHR ''_'' else c) filename"

text \<open>\<^verbatim>\<open>capitalizeFirst\<close>: \<^verbatim>\<open>str.charAt(0).toUpperCase() + str.slice(1)\<close>.\<close>

definition capitalizeFirst :: "string \<Rightarrow> string" where
  "capitalizeFirst str = (case str of [] \<Rightarrow> [] | c # cs \<Rightarrow> toUpperCase c # cs)"

text \<open>\<^verbatim>\<open>GitService.generateCommitMessage\<close>: two replacements in a row on the template.\<close>

definition git_generateCommitMessage :: "LoomSettings \<Rightarrow> string \<Rightarrow> string \<Rightarrow> string" where
  "git_generateCommitMessage settings action_name filename =
     replace
       (replace (commitMessageTemplate settings) ''{action}'' (capitalizeFirst action_name))
       ''{filename}'' filename"

text \<open>
  \<^verbatim>\<open>getActionDisplayName\<close>; the \<^verbatim>\<open>default\<close> branch of the switch is not reachable
  from the four kinds of the type.
\<close>

fun getActionDisplayName :: "FileChangeAction \<Rightarrow> string" where
  "getActionDisplayName Create = ''Created''"
| "getActionDisplayName Modify = ''Updated''"
| "getActionDisplayName Delete = ''Deleted''"
| "getActionDisplayName Rename = ''Renamed''"

record SyncOperation =
  op_file :: TFile
  action :: FileChangeAction
  timestamp :: nat
  retries :: nat

definition generateCommitMessage :: "LoomSettings \<Rightarrow> SyncOperation \<Rightarrow> string" where
  "generateCommitMessage settings operation =
     (let filename = sanitizeFilename (name (op_file operation));
          action_name = getActionDisplayName (action operation)
      in git_generateCommitMessage settings action_name filename)"

section \<open>The retry helper (utils.ts)\<close>

text \<open>
  \<^verbatim>\<open>RetryHelper.retry(operation, maxRetries, baseDelay)\<close>: the loop runs \<open>attempt\<close> from 0
  to \<open>maxRetries\<close>. A success returns at once; a failure at \<open>attempt = maxRetries\<close>
  leaves the loop and the last error is thrown; any other failure sleeps
  \<open>baseDelay * 2 ^ attempt\<close> and goes on. The recursion is on the retries that remain.
  An operation is a function on the state that returns a result or an error message.
\<close>

fun retry_loop ::
  "('s \<Rightarrow> (string + 'a) \<times> 's) \<Rightarrow> (nat \<Rightarrow> 's \<Rightarrow> 's) \<Rightarrow> nat \<Rightarrow> nat \<Rightarrow> nat \<Rightarrow> 's
     \<Rightarrow> (string + 'a) \<times> 's" where
  "retry_loop operation sleep baseDelay attempt 0 s = operation s"
| "retry_loop operation sleep baseDelay attempt (Suc remaining) s =
     (case operation s of
        (Inr v, s') \<Rightarrow> (Inr v, s')
      | (Inl e, s') \<Rightarrow>
          retry_loop operation sleep baseDelay (Suc attempt) remaining
            (sleep (baseDelay * 2 ^ attempt) s'))"

definition retry ::
  "('s \<Rightarrow> (string + 'a) \<times> 's) \<Rightarrow> (nat \<Rightarrow> 's \<Rightarrow> 's) \<Rightarrow> nat \<Rightarrow> nat \<Rightarrow> 's
     \<Rightarrow> (string + 'a) \<times> 's" where
  "retry operation sleep maxRetries baseDelay s =
     retry_loop operation sleep baseDelay 0 maxRetries s"

section \<open>The sync coordinator and its gateway (sync-manager.ts, git-service.ts)\<close>

subsection \<open>State\<close>

datatype SyncStatus = Idle | Syncing | Error | Offline

text \<open>
  The commands that \<^verbatim>\<open>GitService\<close> sends to the version-control library, and the
  library's replies: a failure with its message, or a success that carries, when the
  command is a status query, the changed paths, each with whether it is staged.
\<close>

datatype git_command =
    Add "string list"
  | Status
  | Commit string
  | Push string string
  | PushUpstream string string
  | Pull string string
  | ListRemote string

datatype git_reply = Failed string | Ok "(string \<times> bool) list"

text \<open>
  The library is a parameter of the model: it answers the command that is sent as
  number \<open>n\<close>. A repository that fails \<open>k\<close> times and then works is such a function.
\<close>

type_synonym git = "nat \<Rightarrow> git_command \<Rightarrow> git_reply"

text \<open>
  What a status callback does besides looking at what it is told: the calls it makes
  to \<^verbatim>\<open>onStatusChange\<close> and \<^verbatim>\<open>removeStatusCallback\<close>, in order. A callback of the model
  returns normally and calls no other method of the coordinator. A callback that
  throws would end the loop of \<^verbatim>\<open>updateStatus\<close> at its index and hand its exception to
  the operation that assigned the status; such callbacks are outside the model, and
  every statement below is about callbacks that return.
\<close>

datatype subscription_call = Subscribes nat | Unsubscribes nat

record notification =
  subscriber :: nat
  announced :: SyncStatus
  message :: "string option"
  observed :: SyncStatus

text \<open>
  The fields of \<^verbatim>\<open>SyncManager\<close>, with callbacks named by numbers, followed by the
  world it acts on: the clock, whether the vault holds a repository, what each
  callback does when it is called, the commands sent to the library, the calls made
  to subscribers (with the status a subscriber reads inside the call), the history of
  values assigned to \<open>status\<close>, the notices shown and the lines written to the console.
  The settings object is shared with the gateway.
\<close>

record SyncManager =
  settings :: LoomSettings
  status :: SyncStatus
  lastSyncTime :: "nat option"
  syncQueue :: "SyncOperation list"
  isProcessingQueue :: bool
  statusCallbacks :: "nat list"
  clock :: nat
  repository_exists :: bool
  behaviour :: "nat \<Rightarrow> subscription_call list"
  git_log :: "git_command list"
  notified :: "notification list"
  transitions :: "SyncStatus list"
  notices :: "string list"
  console :: "string list"

definition sleep :: "nat \<Rightarrow> SyncManager \<Rightarrow> SyncManager" where
  "sleep ms st = st\<lparr>clock := clock st + ms\<rparr>"

definition notice :: "string \<Rightarrow> SyncManager \<Rightarrow> SyncManager" where
  "notice text st =
     (if showNotifications (settings st) then st\<lparr>notices := notices st @ [text]\<rparr> else st)"

subsection \<open>Gateway\<close>

definition run_git :: "git \<Rightarrow> git_command \<Rightarrow> SyncManager \<Rightarrow> git_reply \<times> SyncManager" where
  "run_git g c st = (g (length (git_log st)) c, st\<lparr>git_log := git_log st @ [c]\<rparr>)"

text \<open>
  \<^verbatim>\<open>isRepositoryInitialized\<close>: the body of the \<^verbatim>\<open>try\<close> is \<^verbatim>\<open>return true\<close> and
  nothing in it can throw, so the \<^verbatim>\<open>catch\<close> is never entered.
\<close>

definition isRepositoryInitialized :: "SyncManager \<Rightarrow> bool" where
  "isRepositoryInitialized st = True"

text \<open>
  \<^verbatim>\<open>commit(message, filePaths?)\<close>: stage the given paths or the whole tree, query the
  status, return without a commit when nothing is staged, commit otherwise; any failure
  is thrown again with a prefix.
\<close>

definition commit ::
  "git \<Rightarrow> string \<Rightarrow> string list option \<Rightarrow> SyncManager \<Rightarrow> (string + unit) \<times> SyncManager" where
  "commit g msg filePaths st =
     (let staged_paths =
            (case filePaths of
               None \<Rightarrow> [''.'']
             | Some ps \<Rightarrow> if ps \<noteq> [] then ps else [''.''])
      in case run_git g (Add staged_paths) st of
           (Failed m, st1) \<Rightarrow> (Inl (''Failed to commit: '' @ m), st1)
         | (Ok _, st1) \<Rightarrow>
             (case run_git g Status st1 of
                (Failed m, st2) \<Rightarrow> (Inl (''Failed to commit: '' @ m), st2)
              | (Ok files, st2) \<Rightarrow>
                  if filter snd files = [] then (Inr (), st2)
                  else (case run_git g (Commit msg) st2 of
                          (Failed m, st3) \<Rightarrow> (Inl (''Failed to commit: '' @ m), st3)
                        | (Ok _, st3) \<Rightarrow> (Inr (), st3))))"

text \<open>
  \<^verbatim>\<open>push()\<close> with its default arguments: a failure whose message mentions an upstream
  is followed by a push that sets the upstream, whose own failure is not wrapped.
\<close>

definition push :: "git \<Rightarrow> SyncManager \<Rightarrow> (string + unit) \<times> SyncManager" where
  "push g st =
     (let targetBranch = branch (settings st)
      in case run_git g (Push ''origin'' targetBranch) st of
           (Ok _, st1) \<Rightarrow> (Inr (), st1)
         | (Failed m, st1) \<Rightarrow>
             if str_includes m ''upstream''
             then (case run_git g (PushUpstream ''origin'' targetBranch) st1 of
                     (Ok _, st2) \<Rightarrow> (Inr (), st2)
                   | (Failed m2, st2) \<Rightarrow> (Inl m2, st2))
             else (Inl (''Failed to push: '' @ m), st1))"

definition pull :: "git \<Rightarrow> SyncManager \<Rightarrow> (string + unit) \<times> SyncManager" where
  "pull g st =
     (case run_git g (Pull ''origin'' (branch (settings st))) st of
        (Ok _, st1) \<Rightarrow> (Inr (), st1)
      | (Failed m, st1) \<Rightarrow> (Inl (''Failed to pull: '' @ m), st1))"

definition testConnection :: "git \<Rightarrow> SyncManager \<Rightarrow> bool \<times> SyncManager" where
  "testConnection g st =
     (if remoteUrl (settings st) = [] then (False, st)
      else case run_git g (ListRemote (remoteUrl (settings st))) st of
             (Ok _, st1) \<Rightarrow> (True, st1)
           | (Failed _, st1) \<Rightarrow> (False, st1))"



subsection \<open>Status and subscribers\<close>

definition onStatusChange :: "nat \<Rightarrow> SyncManager \<Rightarrow> SyncManager" where
  "onStatusChange cb st = st\<lparr>statusCallbacks := statusCallbacks st @ [cb]\<rparr>"

text \<open>\<^verbatim>\<open>removeStatusCallback\<close>: the first registration of the callback is spliced out.\<close>

definition removeStatusCallback :: "nat \<Rightarrow> SyncManager \<Rightarrow> SyncManager" where
  "removeStatusCallback cb st = st\<lparr>statusCallbacks := remove1 cb (statusCallbacks st)\<rparr>"

text \<open>
  \<^verbatim>\<open>updateStatus\<close>: the field is assigned first, then \<^verbatim>\<open>forEach\<close> runs over the
  array of callbacks, which is the live array: the number of indices to visit is fixed
  when the loop starts, an index is visited only if the array still has it, and the
  callback found there at that moment is called. So a callback spliced out during the
  loop moves the later ones down, and callbacks appended during the loop are not
  visited. A callback is told the status and the message, can read the status, and
  makes its calls to subscribe and unsubscribe.
\<close>

fun perform :: "subscription_call list \<Rightarrow> SyncManager \<Rightarrow> SyncManager" where
  "perform [] st = st"
| "perform (Subscribes c # calls) st = perform calls (onStatusChange c st)"
| "perform (Unsubscribes c # calls) st = perform calls (removeStatusCallback c st)"

definition call_callback ::
  "nat \<Rightarrow> SyncStatus \<Rightarrow> string option \<Rightarrow> SyncManager \<Rightarrow> SyncManager" where
  "call_callback cb s msg st =
     perform (behaviour st cb)
       (st\<lparr>notified := notified st @
             [\<lparr>subscriber = cb, announced = s, message = msg, observed = status st\<rparr>]\<rparr>)"

fun forEach_callback ::
  "nat \<Rightarrow> nat \<Rightarrow> SyncStatus \<Rightarrow> string option \<Rightarrow> SyncManager \<Rightarrow> SyncManager" where
  "forEach_callback 0 k s msg st = st"
| "forEach_callback (Suc remaining) k s msg st =
     (if k < length (statusCallbacks st)
      then forEach_callback remaining (Suc k) s msg
             (call_callback (statusCallbacks st ! k) s msg st)
      else forEach_callback remaining (Suc k) s msg st)"

definition updateStatus :: "SyncStatus \<Rightarrow> string option \<Rightarrow> SyncManager \<Rightarrow> SyncManager" where
  "updateStatus s msg st =
     (let st1 = st\<lparr>status := s, transitions := transitions st @ [s]\<rparr>
      in forEach_callback (length (statusCallbacks st1)) 0 s msg st1)"

definition getStatus :: "SyncManager \<Rightarrow> SyncStatus" where
  "getStatus st = status st"

definition getQueueLength :: "SyncManager \<Rightarrow> nat" where
  "getQueueLength st = length (syncQueue st)"

subsection \<open>Operations\<close>

text \<open>
  \<^verbatim>\<open>initialize\<close>. Neither the repository check nor the connection test can throw, and
  the callbacks of the model return normally, so the \<^verbatim>\<open>catch\<close> branch that sets the
  error status is not reachable.
\<close>

definition initialize :: "git \<Rightarrow> SyncManager \<Rightarrow> SyncManager" where
  "initialize g st =
     (if \<not> isRepositoryInitialized st
      then updateStatus Offline (Some ''Git repository not initialized'') st
      else
        (let (connectionOk, st1) =
               (if remoteUrl (settings st) \<noteq> [] then testConnection g st else (True, st))
         in if \<not> connectionOk
            then updateStatus Offline (Some ''Cannot connect to remote repository'') st1
            else (let st2 = updateStatus Idle (Some ''Ready to sync'') st1
                  in st2\<lparr>lastSyncTime := Some (clock st2)\<rparr>)))"


definition pullFromRemote :: "git \<Rightarrow> SyncManager \<Rightarrow> (string + unit) \<times> SyncManager" where
  "pullFromRemote g st =
     (if remoteUrl (settings st) = [] then (Inl ''No remote repository configured'', st)
      else
        (let st1 = updateStatus Syncing (Some ''Pulling from remote'') st
         in case pull g st1 of
              (Inr _, st2) \<Rightarrow>
                (Inr (),
                 notice ''Successfully pulled from remote''
                   (updateStatus Idle (Some ''Pull completed'')
                      (st2\<lparr>lastSyncTime := Some (clock st2)\<rparr>)))
            | (Inl e, st2) \<Rightarrow>
                (Inl e, updateStatus Error (Some (''Pull failed: '' @ e)) st2)))"

definition pushToRemote :: "git \<Rightarrow> SyncManager \<Rightarrow> (string + unit) \<times> SyncManager" where
  "pushToRemote g st =
     (if remoteUrl (settings st) = [] then (Inl ''No remote repository configured'', st)
      else
        (let st1 = updateStatus Syncing (Some ''Pushing to remote'') st
         in case push g st1 of
              (Inr _, st2) \<Rightarrow>
                (Inr (),
                 notice ''Successfully pushed to remote''
                   (updateStatus Idle (Some ''Push completed'')
                      (st2\<lparr>lastSyncTime := Some (clock st2)\<rparr>)))
            | (Inl e, st2) \<Rightarrow>
                (Inl e, updateStatus Error (Some (''Push failed: '' @ e)) st2)))"

text \<open>
  One attempt of \<^verbatim>\<open>processSyncOperation\<close>: the function handed to the retry helper.
  A delete commits the whole tree, every other kind the path of the file.
\<close>

definition commitOperation ::
  "git \<Rightarrow> SyncOperation \<Rightarrow> SyncManager \<Rightarrow> (string + unit) \<times> SyncManager" where
  "commitOperation g operation st =
     (let commitMessage = generateCommitMessage (settings st) operation
      in if action operation = Delete then commit g commitMessage None st
         else commit g commitMessage (Some [path (op_file operation)]) st)"

text \<open>
  \<^verbatim>\<open>processSyncOperation\<close>: two retries with a base delay of a second; when the
  helper gives up, the retry count of the operation goes up, the operation goes back
  to the front of the queue while the count is below three, and the error is thrown
  again in either case.
\<close>

definition processSyncOperation ::
  "git \<Rightarrow> SyncOperation \<Rightarrow> SyncManager \<Rightarrow> (string + unit) \<times> SyncManager" where
  "processSyncOperation g operation st =
     (case retry (commitOperation g operation) sleep 2 1000 st of
        (Inr _, st1) \<Rightarrow> (Inr (), st1)
      | (Inl e, st1) \<Rightarrow>
          (let operation' = operation\<lparr>retries := retries operation + 1\<rparr>
           in if retries operation' < 3
              then (Inl e, st1\<lparr>syncQueue := operation' # syncQueue st1\<rparr>)
              else (Inl e,
                    st1\<lparr>console := console st1 @
                          [''Failed to sync '' @ path (op_file operation')
                             @ '' after 3 retries: '' @ e]\<rparr>)))"

text \<open>
  The loop of \<^verbatim>\<open>processQueue\<close>: the head of the queue is shifted out and processed
  until the queue is empty. An error thrown by \<^verbatim>\<open>processSyncOperation\<close> leaves the
  loop, since the \<^verbatim>\<open>try\<close> encloses the whole loop. The model runs the loop without
  interleaving other entry points at its suspension points. A successful operation
  does not touch the queue, which is why the loop ends.
\<close>

lemma run_git_syncQueue: "syncQueue (snd (run_git g c st)) = syncQueue st"
  by (simp add: run_git_def)

lemma commit_syncQueue: "syncQueue (snd (commit g msg filePaths st)) = syncQueue st"
  by (simp add: commit_def run_git_def Let_def split: git_reply.splits option.splits)

lemma commitOperation_syncQueue:
  "syncQueue (snd (commitOperation g operation st)) = syncQueue st"
  by (simp add: commitOperation_def commit_syncQueue Let_def)

lemma retry_loop_syncQueue:
  "syncQueue (snd (retry_loop (commitOperation g operation) sleep baseDelay attempt remaining st))
     = syncQueue st"
proof (induction remaining arbitrary: attempt st)
  case 0
  show ?case by (simp add: commitOperation_syncQueue)
next
  case (Suc remaining)
  obtain r st' where step: "commitOperation g operation st = (r, st')"
    by (cases "commitOperation g operation st")
  have q: "syncQueue st' = syncQueue st"
    using commitOperation_syncQueue [of g operation st] step by simp
  show ?case
  proof (cases r)
    case (Inl e)
    have "syncQueue (sleep (baseDelay * 2 ^ attempt) st') = syncQueue st"
      by (simp add: sleep_def q)
    with Suc.IH [of "Suc attempt" "sleep (baseDelay * 2 ^ attempt) st'"] step Inl
    show ?thesis by simp
  next
    case (Inr v)
    with step q show ?thesis by simp
  qed
qed

lemma processSyncOperation_success_syncQueue:
  assumes "processSyncOperation g operation st = (Inr u, st')"
  shows "syncQueue st' = syncQueue st"
proof -
  obtain r st1 where run: "retry (commitOperation g operation) sleep 2 1000 st = (r, st1)"
    by (cases "retry (commitOperation g operation) sleep 2 1000 st")
  have q: "syncQueue st1 = syncQueue st"
    using retry_loop_syncQueue [of g operation 1000 0 2 st] run by (simp add: retry_def)
  from assms run have "st' = st1"
    by (cases r) (auto simp: processSyncOperation_def Let_def split: if_splits)
  with q show ?thesis by simp
qed

function drain :: "git \<Rightarrow> SyncManager \<Rightarrow> (string + unit) \<times> SyncManager" where
  "drain g st =
     (case syncQueue st of
        [] \<Rightarrow> (Inr (), st)
      | operation # rest \<Rightarrow>
          (case processSyncOperation g operation (st\<lparr>syncQueue := rest\<rparr>) of
             (Inl e, st') \<Rightarrow> (Inl e, st')
           | (Inr _, st') \<Rightarrow> drain g st'))"
  by pat_completeness auto
termination
  apply (relation "measure (\<lambda>(g, st). length (syncQueue st))")
   apply simp
  subgoal premises prems
    using prems
    by (auto dest: processSyncOperation_success_syncQueue [OF sym])
  done

declare drain.simps [simp del]

text \<open>
  \<^verbatim>\<open>processQueue\<close>: nothing happens while a drain is running or the queue is empty.
  Otherwise the guard is set, the status becomes syncing and the loop runs. After the
  loop a push follows when auto-push and a remote are configured, and its failure is
  only written to the console. An error out of the loop sets the error status; the
  guard is cleared in either case.
\<close>

definition processQueue :: "git \<Rightarrow> SyncManager \<Rightarrow> SyncManager" where
  "processQueue g st =
     (if isProcessingQueue st \<or> syncQueue st = [] then st
      else
        (let st1 = updateStatus Syncing (Some ''Processing file changes'')
                     (st\<lparr>isProcessingQueue := True\<rparr>)
         in case drain g st1 of
              (Inr _, st2) \<Rightarrow>
                (let st3 =
                       (if autoPush (settings st2) \<and> remoteUrl (settings st2) \<noteq> []
                        then (case push g st2 of
                                (Inr _, s) \<Rightarrow> s
                              | (Inl e, s) \<Rightarrow>
                                  s\<lparr>console := console s @ [''Auto-push failed: '' @ e]\<rparr>)
                        else st2);
                     st4 = updateStatus Idle (Some ''Sync completed'')
                             (st3\<lparr>lastSyncTime := Some (clock st3)\<rparr>)
                 in st4\<lparr>isProcessingQueue := False\<rparr>)
            | (Inl e, st2) \<Rightarrow>
                (notice (''Sync failed: '' @ e)
                   (updateStatus Error (Some (''Sync failed: '' @ e)) st2))
                \<lparr>isProcessingQueue := False\<rparr>))"

text \<open>\<^verbatim>\<open>SyncManager.handleFileChange\<close>.\<close>

definition handleFileChange ::
  "git \<Rightarrow> TFile \<Rightarrow> FileChangeAction \<Rightarrow> SyncManager \<Rightarrow> SyncManager" where
  "handleFileChange g f a st =
     (if status st = Error \<or> status st = Offline then st
      else
        (let operation = \<lparr>op_file = f, action = a, timestamp = clock st, retries = 0\<rparr>
         in processQueue g (st\<lparr>syncQueue := syncQueue st @ [operation]\<rparr>)))"

section \<open>The change aggregator (utils.ts, file-watcher.ts)\<close>

text \<open>
  The watcher with the one timer of its debounced handler. \<^verbatim>\<open>debounce\<close> keeps a
  timer identifier in its closure; a call clears the timer named by it and sets a new
  one with the arguments of this call, so at most one timer is live, and clearing a
  timer that has fired does nothing. The field \<open>timer\<close> is the live timer: the time at
  which it is due and the arguments it holds. The callback acts on a state of its
  caller's choice.
\<close>

record 's FileWatcher =
  fw_settings :: LoomSettings
  isActive :: bool
  callback :: "(TFile \<Rightarrow> FileChangeAction \<Rightarrow> 's \<Rightarrow> 's) option"
  eventRefs :: "FileChangeAction list"
  timer :: "(nat \<times> TFile \<times> FileChangeAction) option"
  uncaught :: "regexp_error list"

definition updateSettings :: "LoomSettings \<Rightarrow> 's FileWatcher \<Rightarrow> 's FileWatcher" where
  "updateSettings s w = w\<lparr>fw_settings := s\<rparr>"

definition stop :: "'s FileWatcher \<Rightarrow> 's FileWatcher" where
  "stop w = (if \<not> isActive w then w else w\<lparr>isActive := False, callback := None, eventRefs := []\<rparr>)"

definition start ::
  "(TFile \<Rightarrow> FileChangeAction \<Rightarrow> 's \<Rightarrow> 's) \<Rightarrow> 's FileWatcher \<Rightarrow> 's FileWatcher" where
  "start cb w =
     (let w1 = (if isActive w then stop w else w)
      in w1\<lparr>isActive := True, callback := Some cb,
            eventRefs := [Create, Modify, Delete, Rename]\<rparr>)"

text \<open>
  The function given to \<^verbatim>\<open>debounce\<close>: it runs when the timer fires, with the
  arguments the timer holds. An exception of the filter is not caught.
\<close>

definition fileChanged ::
  "TFile \<Rightarrow> FileChangeAction \<Rightarrow> 's FileWatcher \<times> 's \<Rightarrow> 's FileWatcher \<times> 's" where
  "fileChanged f a ws =
     (let (w, s) = ws in
      if \<not> isActive w then (w, s)
      else case callback w of
             None \<Rightarrow> (w, s)
           | Some cb \<Rightarrow>
               (case shouldIgnoreFile (fw_settings w) f of
                  Inl e \<Rightarrow> (w\<lparr>uncaught := uncaught w @ [e]\<rparr>, s)
                | Inr True \<Rightarrow> (w, s)
                | Inr False \<Rightarrow> (w, cb f a s)))"

text \<open>
  The debounced handler, called at time \<open>now\<close>: the delay is the constant of the source,
  \<^verbatim>\<open>debounce(..., 500)\<close>.
\<close>

definition watcher_handleFileChange ::
  "nat \<Rightarrow> TFile \<Rightarrow> FileChangeAction \<Rightarrow> 's FileWatcher \<Rightarrow> 's FileWatcher" where
  "watcher_handleFileChange now f a w = w\<lparr>timer := Some (now + 500, f, a)\<rparr>"

text \<open>The host runs the timer once the clock has reached the time at which it is due.\<close>

definition run_timers :: "nat \<Rightarrow> 's FileWatcher \<times> 's \<Rightarrow> 's FileWatcher \<times> 's" where
  "run_timers now ws =
     (let (w, s) = ws in
      case timer w of
        None \<Rightarrow> (w, s)
      | Some (due, f, a) \<Rightarrow>
          if due \<le> now then fileChanged f a (w\<lparr>timer := None\<rparr>, s) else (w, s))"

text \<open>
  A vault event at time \<open>now\<close>: timers that are due run first, then the handler
  registered for the kind of event, if any, calls the debounced handler.
\<close>

definition vault_event ::
  "nat \<Rightarrow> TFile \<Rightarrow> FileChangeAction \<Rightarrow> 's FileWatcher \<times> 's \<Rightarrow> 's FileWatcher \<times> 's" where
  "vault_event now f a ws =
     (let (w, s) = run_timers now ws in
      if a \<in> set (eventRefs w) then (watcher_handleFileChange now f a w, s) else (w, s))"

type_synonym change_event = "nat \<times> TFile \<times> FileChangeAction"

fun vault_events :: "change_event list \<Rightarrow> 's FileWatcher \<times> 's \<Rightarrow> 's FileWatcher \<times> 's" where
  "vault_events [] ws = ws"
| "vault_events ((t, f, a) # evs) ws = vault_events evs (vault_event t f a ws)"

text \<open>
  A sequence of events falls within one window when each event after the first arrives
  no earlier than its predecessor and before the timer set by its predecessor is due.
\<close>

fun within_window :: "nat \<Rightarrow> change_event list \<Rightarrow> bool" where
  "within_window t [] = True"
| "within_window t ((t', f, a) # evs) = (t \<le> t' \<and> t' < t + 500 \<and> within_window t' evs)"

definition one_window :: "change_event list \<Rightarrow> bool" where
  "one_window evs = (case evs of [] \<Rightarrow> True | (t, f, a) # rest \<Rightarrow> within_window t rest)"

text \<open>
  The reading of the specification: the operations produced for a batch reflect it when
  every path of the batch has an operation that carries the last action of the batch
  on that path.
\<close>

definition last_action :: "change_event list \<Rightarrow> string \<Rightarrow> FileChangeAction option" where
  "last_action evs p =
     (case filter (\<lambda>(t, f, a). path f = p) evs of
        [] \<Rightarrow> None
      | e # es \<Rightarrow> Some (snd (snd (last (e # es)))))"

definition reflects_batch :: "(TFile \<times> FileChangeAction) list \<Rightarrow> change_event list \<Rightarrow> bool" where
  "reflects_batch ops evs \<longleftrightarrow>
     (\<forall>(t, f, a) \<in> set evs.
        \<exists>(f', a') \<in> set ops. path f' = path f \<and> last_action evs (path f) = Some a')"

text \<open>A callback that records its calls.\<close>

definition record_call ::
  "TFile \<Rightarrow> FileChangeAction \<Rightarrow> (TFile \<times> FileChangeAction) list
     \<Rightarrow> (TFile \<times> FileChangeAction) list" where
  "record_call f a calls = calls @ [(f, a)]"

section \<open>Initial states and sample inputs\<close>

text \<open>
  The state a \<^verbatim>\<open>SyncManager\<close> has after its constructor, in a world with a repository
  and with callbacks that only observe.
\<close>

definition new_SyncManager :: "LoomSettings \<Rightarrow> SyncManager" where
  "new_SyncManager s =
     \<lparr> settings = s, status = Idle, lastSyncTime = None, syncQueue = [],
       isProcessingQueue = False, statusCallbacks = [], clock = 0,
       repository_exists = True, behaviour = (\<lambda>cb. []), git_log = [], notified = [],
       transitions = [],
       notices = [], console = [] \<rparr>"

text \<open>The state a \<^verbatim>\<open>FileWatcher\<close> has after its constructor.\<close>

definition new_FileWatcher :: "LoomSettings \<Rightarrow> 's FileWatcher" where
  "new_FileWatcher s =
     \<lparr> fw_settings = s, isActive = False, callback = None, eventRefs = [], timer = None,
       uncaught = [] \<rparr>"

text \<open>A library whose every command fails, and one whose every command succeeds.\<close>

definition git_down :: git where
  "git_down n c = Failed ''network unreachable''"

definition git_up :: git where
  "git_up n c = Ok (case c of Status \<Rightarrow> [(''staged'', True)] | _ \<Rightarrow> [])"

definition vault_file :: "string \<Rightarrow> TFile" where
  "vault_file p = \<lparr>path = p, name = p\<rparr>"

definition operation_for :: "string \<Rightarrow> FileChangeAction \<Rightarrow> nat \<Rightarrow> SyncOperation" where
  "operation_for p a n = \<lparr>op_file = vault_file p, action = a, timestamp = 0, retries = n\<rparr>"

text \<open>The paths that one attempt to commit an operation stages first.\<close>

definition staged_paths :: "SyncOperation \<Rightarrow> string list" where
  "staged_paths operation =
     (if action operation = Delete then [''.''] else [path (op_file operation)])"








text \<open>
  The reading of the specification for commit messages: a placeholder of the template
  is replaced by a text, taken as it is.
\<close>

fun literal_replace :: "string \<Rightarrow> string \<Rightarrow> string \<Rightarrow> string" where
  "literal_replace [] pat repl = (if pat = [] then repl else [])"
| "literal_replace (c # cs) pat repl =
     (if startsWith (c # cs) pat then repl @ drop (length pat) (c # cs)
      else c # literal_replace cs pat repl)"

definition expected_message :: "LoomSettings \<Rightarrow> SyncOperation \<Rightarrow> string" where
  "expected_message s operation =
     literal_replace
       (literal_replace (commitMessageTemplate s) ''{action}''
          (getActionDisplayName (action operation)))
       ''{filename}'' (sanitizeFilename (name (op_file operation)))"

text \<open>
  Patterns without the characters that the filter leaves unescaped, and paths without
  a line terminator; what the three replacements make of one character of a pattern,
  as source text, as tokens and as a quantified atom.
\<close>

definition plain_pattern :: "string \<Rightarrow> bool" where
  "plain_pattern p \<longleftrightarrow> (\<forall>c \<in> set p. c \<notin> set ''^$+()[]{}|'' \<and> c \<noteq> backslash)"

definition single_line :: "string \<Rightarrow> bool" where
  "single_line s \<longleftrightarrow> line_feed \<notin> set s \<and> carriage_return \<notin> set s"

definition glob_char_source :: "char \<Rightarrow> string" where
  "glob_char_source c =
     (if c = CHR ''.'' then [backslash, CHR ''.'']
      else if c = CHR ''*'' then ''.*''
      else if c = CHR ''?'' then ''.''
      else [c])"

definition glob_char_tokens :: "char \<Rightarrow> regexp_token list" where
  "glob_char_tokens c =
     (if c = CHR ''*'' then [TDot, TStar]
      else if c = CHR ''?'' then [TDot]
      else [TChar c])"

definition glob_char_term :: "char \<Rightarrow> regexp_term" where
  "glob_char_term c =
     (if c = CHR ''*'' then (AnyChar, Star)
      else if c = CHR ''?'' then (AnyChar, Once)
      else (Lit c, Once))"






text \<open>
  Two states between which no status was assigned, no callback was called and none
  was registered or removed.
\<close>

definition same_subscribers :: "SyncManager \<Rightarrow> SyncManager \<Rightarrow> bool" where
  "same_subscribers st st' \<longleftrightarrow>
     notified st' = notified st \<and> statusCallbacks st' = statusCallbacks st
     \<and> behaviour st' = behaviour st \<and> status st' = status st
     \<and> transitions st' = transitions st"








section \<open>What an announcement changes\<close>

text \<open>
  Calling the callbacks changes the record of calls and the array of callbacks, and
  nothing else; so \<^verbatim>\<open>updateStatus\<close> changes these, the status and its history.
\<close>

lemma perform_frame:
  "settings (perform calls st) = settings st"
  "status (perform calls st) = status st"
  "lastSyncTime (perform calls st) = lastSyncTime st"
  "syncQueue (perform calls st) = syncQueue st"
  "isProcessingQueue (perform calls st) = isProcessingQueue st"
  "clock (perform calls st) = clock st"
  "repository_exists (perform calls st) = repository_exists st"
  "behaviour (perform calls st) = behaviour st"
  "git_log (perform calls st) = git_log st"
  "notified (perform calls st) = notified st"
  "transitions (perform calls st) = transitions st"
  "notices (perform calls st) = notices st"
  "console (perform calls st) = console st"
  by (induction calls st rule: perform.induct)
    (simp_all add: onStatusChange_def removeStatusCallback_def)

lemma call_callback_frame:
  "settings (call_callback cb s msg st) = settings st"
  "status (call_callback cb s msg st) = status st"
  "lastSyncTime (call_callback cb s msg st) = lastSyncTime st"
  "syncQueue (call_callback cb s msg st) = syncQueue st"
  "isProcessingQueue (call_callback cb s msg st) = isProcessingQueue st"
  "clock (call_callback cb s msg st) = clock st"
  "repository_exists (call_callback cb s msg st) = repository_exists st"
  "behaviour (call_callback cb s msg st) = behaviour st"
  "git_log (call_callback cb s msg st) = git_log st"
  "transitions (call_callback cb s msg st) = transitions st"
  "notices (call_callback cb s msg st) = notices st"
  "console (call_callback cb s msg st) = console st"
  by (simp_all add: call_callback_def perform_frame)

lemma forEach_callback_frame:
  "settings (forEach_callback n k s msg st) = settings st"
  "status (forEach_callback n k s msg st) = status st"
  "lastSyncTime (forEach_callback n k s msg st) = lastSyncTime st"
  "syncQueue (forEach_callback n k s msg st) = syncQueue st"
  "isProcessingQueue (forEach_callback n k s msg st) = isProcessingQueue st"
  "clock (forEach_callback n k s msg st) = clock st"
  "repository_exists (forEach_callback n k s msg st) = repository_exists st"
  "behaviour (forEach_callback n k s msg st) = behaviour st"
  "git_log (forEach_callback n k s msg st) = git_log st"
  "transitions (forEach_callback n k s msg st) = transitions st"
  "notices (forEach_callback n k s msg st) = notices st"
  "console (forEach_callback n k s msg st) = console st"
  by (induction n k s msg st rule: forEach_callback.induct)
    (simp_all add: call_callback_frame)

lemma updateStatus_frame:
  "status (updateStatus s msg st) = s"
  "transitions (updateStatus s msg st) = transitions st @ [s]"
  "settings (updateStatus s msg st) = settings st"
  "lastSyncTime (updateStatus s msg st) = lastSyncTime st"
  "syncQueue (updateStatus s msg st) = syncQueue st"
  "isProcessingQueue (updateStatus s msg st) = isProcessingQueue st"
  "clock (updateStatus s msg st) = clock st"
  "repository_exists (updateStatus s msg st) = repository_exists st"
  "behaviour (updateStatus s msg st) = behaviour st"
  "git_log (updateStatus s msg st) = git_log st"
  "notices (updateStatus s msg st) = notices st"
  "console (updateStatus s msg st) = console st"
  by (simp_all add: updateStatus_def Let_def forEach_callback_frame)










section \<open>Sticky states drop file changes\<close>

text \<open>
  Claim C9. A file change that reaches the coordinator while its status is error or
  offline changes nothing: the whole state is the same afterwards, so no operation is
  enqueued, the queue has the length it had and the status is the one it was.
\<close>

theorem handleFileChange_sticky:
  assumes "status st = Error \<or> status st = Offline"
  shows "handleFileChange g f a st = st
         \<and> getQueueLength (handleFileChange g f a st) = getQueueLength st
         \<and> getStatus (handleFileChange g f a st) = getStatus st"
  using assms by (auto simp: handleFileChange_def)

theorem handleFileChange_sticky_witness:
  "handleFileChange git_up (vault_file ''note.md'') Modify
     ((new_SyncManager DEFAULT_SETTINGS)\<lparr>status := Offline\<rparr>)
     = (new_SyncManager DEFAULT_SETTINGS)\<lparr>status := Offline\<rparr>
   \<and> getQueueLength
        (handleFileChange git_up (vault_file ''note.md'') Modify
           ((new_SyncManager DEFAULT_SETTINGS)\<lparr>status := Offline\<rparr>)) = 0"
  using handleFileChange_sticky
    [of "(new_SyncManager DEFAULT_SETTINGS)\<lparr>status := Offline\<rparr>" git_up
        "vault_file ''note.md''" Modify]
  by (simp add: new_SyncManager_def getQueueLength_def)

section \<open>Explicit pull and push\<close>

lemma run_git_frame:
  "status (snd (run_git g c st)) = status st"
  "transitions (snd (run_git g c st)) = transitions st"
  "settings (snd (run_git g c st)) = settings st"
  by (simp_all add: run_git_def)

lemma pull_frame:
  "status (snd (pull g st)) = status st"
  "transitions (snd (pull g st)) = transitions st"
  "settings (snd (pull g st)) = settings st"
  by (simp_all add: pull_def run_git_def split: git_reply.splits)

lemma push_frame:
  "status (snd (push g st)) = status st"
  "transitions (snd (push g st)) = transitions st"
  "settings (snd (push g st)) = settings st"
  by (simp_all add: push_def run_git_def Let_def split: git_reply.splits)

lemma notice_frame:
  "status (notice text st) = status st"
  "transitions (notice text st) = transitions st"
  "settings (notice text st) = settings st"
  by (simp_all add: notice_def)

lemma pullFromRemote_configured:
  assumes "remoteUrl (settings st) \<noteq> []"
  shows "fst (pullFromRemote g st)
           = fst (pull g (updateStatus Syncing (Some ''Pulling from remote'') st))"
    and "transitions (snd (pullFromRemote g st))
           = transitions st @ [Syncing, if isl (fst (pullFromRemote g st)) then Error else Idle]"
    and "status (snd (pullFromRemote g st))
           = (if isl (fst (pullFromRemote g st)) then Error else Idle)"
proof -
  let ?st1 = "updateStatus Syncing (Some ''Pulling from remote'') st"
  obtain r st2 where p: "pull g ?st1 = (r, st2)" by (cases "pull g ?st1")
  have t: "transitions st2 = transitions st @ [Syncing]"
    using pull_frame(2) [of g ?st1] p by (simp add: updateStatus_frame)
  show "fst (pullFromRemote g st) = fst (pull g ?st1)"
    using assms p by (cases r) (simp_all add: pullFromRemote_def)
  show "transitions (snd (pullFromRemote g st))
           = transitions st @ [Syncing, if isl (fst (pullFromRemote g st)) then Error else Idle]"
    using assms p t
    by (cases r) (simp_all add: pullFromRemote_def updateStatus_frame notice_frame)
  show "status (snd (pullFromRemote g st))
           = (if isl (fst (pullFromRemote g st)) then Error else Idle)"
    using assms p
    by (cases r) (simp_all add: pullFromRemote_def updateStatus_frame notice_frame)
qed

lemma pushToRemote_configured:
  assumes "remoteUrl (settings st) \<noteq> []"
  shows "fst (pushToRemote g st)
           = fst (push g (updateStatus Syncing (Some ''Pushing to remote'') st))"
    and "transitions (snd (pushToRemote g st))
           = transitions st @ [Syncing, if isl (fst (pushToRemote g st)) then Error else Idle]"
    and "status (snd (pushToRemote g st))
           = (if isl (fst (pushToRemote g st)) then Error else Idle)"
proof -
  let ?st1 = "updateStatus Syncing (Some ''Pushing to remote'') st"
  obtain r st2 where p: "push g ?st1 = (r, st2)" by (cases "push g ?st1")
  have t: "transitions st2 = transitions st @ [Syncing]"
    using push_frame(2) [of g ?st1] p by (simp add: updateStatus_frame)
  show "fst (pushToRemote g st) = fst (push g ?st1)"
    using assms p by (cases r) (simp_all add: pushToRemote_def)
  show "transitions (snd (pushToRemote g st))
           = transitions st @ [Syncing, if isl (fst (pushToRemote g st)) then Error else Idle]"
    using assms p t
    by (cases r) (simp_all add: pushToRemote_def updateStatus_frame notice_frame)
  show "status (snd (pushToRemote g st))
           = (if isl (fst (pushToRemote g st)) then Error else Idle)"
    using assms p
    by (cases r) (simp_all add: pushToRemote_def updateStatus_frame notice_frame)
qed

text \<open>
  Claim C5. Without a remote, pull and push return the configuration error and the
  state they were given: the status is untouched and no status was assigned on the way.
  With a remote, the result is the result of the gateway call made after the status
  became syncing (so a failure reaches the caller with the gateway's message), the
  values assigned to the status are syncing and then idle on success or error on
  failure, and the final status is that last value.
\<close>

theorem pull_push_require_remote:
  "(remoteUrl (settings st) = [] \<longrightarrow>
      pullFromRemote g st = (Inl ''No remote repository configured'', st)
      \<and> pushToRemote g st = (Inl ''No remote repository configured'', st))
   \<and> (remoteUrl (settings st) \<noteq> [] \<longrightarrow>
      fst (pullFromRemote g st)
        = fst (pull g (updateStatus Syncing (Some ''Pulling from remote'') st))
      \<and> transitions (snd (pullFromRemote g st))
        = transitions st @ [Syncing, if isl (fst (pullFromRemote g st)) then Error else Idle]
      \<and> status (snd (pullFromRemote g st))
        = (if isl (fst (pullFromRemote g st)) then Error else Idle)
      \<and> fst (pushToRemote g st)
        = fst (push g (updateStatus Syncing (Some ''Pushing to remote'') st))
      \<and> transitions (snd (pushToRemote g st))
        = transitions st @ [Syncing, if isl (fst (pushToRemote g st)) then Error else Idle]
      \<and> status (snd (pushToRemote g st))
        = (if isl (fst (pushToRemote g st)) then Error else Idle))"
proof (cases "remoteUrl (settings st) = []")
  case True
  then show ?thesis by (simp add: pullFromRemote_def pushToRemote_def)
next
  case False
  from pullFromRemote_configured [OF False, of g] pushToRemote_configured [OF False, of g]
  show ?thesis using False by blast
qed

theorem pull_push_require_remote_witness:
  "pullFromRemote git_up (new_SyncManager DEFAULT_SETTINGS)
     = (Inl ''No remote repository configured'', new_SyncManager DEFAULT_SETTINGS)
   \<and> pushToRemote git_up (new_SyncManager DEFAULT_SETTINGS)
     = (Inl ''No remote repository configured'', new_SyncManager DEFAULT_SETTINGS)
   \<and> fst (pullFromRemote git_down
        (new_SyncManager (DEFAULT_SETTINGS\<lparr>remoteUrl := ''git@host:me/vault.git''\<rparr>)))
     = Inl ''Failed to pull: network unreachable''
   \<and> transitions (snd (pullFromRemote git_down
        (new_SyncManager (DEFAULT_SETTINGS\<lparr>remoteUrl := ''git@host:me/vault.git''\<rparr>))))
     = [Syncing, Error]
   \<and> transitions (snd (pushToRemote git_up
        (new_SyncManager (DEFAULT_SETTINGS\<lparr>remoteUrl := ''git@host:me/vault.git''\<rparr>))))
     = [Syncing, Idle]"
proof -
  let ?none = "new_SyncManager DEFAULT_SETTINGS"
  let ?some = "new_SyncManager (DEFAULT_SETTINGS\<lparr>remoteUrl := ''git@host:me/vault.git''\<rparr>)"
  have a: "remoteUrl (settings ?none) = []"
    by (simp add: new_SyncManager_def DEFAULT_SETTINGS_def)
  have b: "remoteUrl (settings ?some) \<noteq> []"
    by (simp add: new_SyncManager_def DEFAULT_SETTINGS_def)
  have t: "transitions ?some = []"
    by (simp add: new_SyncManager_def)
  have down: "fst (pull git_down (updateStatus Syncing (Some ''Pulling from remote'') ?some))
                = Inl ''Failed to pull: network unreachable''"
    by (simp add: pull_def run_git_def git_down_def)
  have up: "fst (push git_up (updateStatus Syncing (Some ''Pushing to remote'') ?some)) = Inr ()"
    by (simp add: push_def run_git_def git_up_def Let_def)
  from pull_push_require_remote [of ?none git_up] a
  have none: "pullFromRemote git_up ?none = (Inl ''No remote repository configured'', ?none)
              \<and> pushToRemote git_up ?none = (Inl ''No remote repository configured'', ?none)"
    by blast
  from pull_push_require_remote [of ?some git_down] b down t
  have pl: "fst (pullFromRemote git_down ?some) = Inl ''Failed to pull: network unreachable''
            \<and> transitions (snd (pullFromRemote git_down ?some)) = [Syncing, Error]"
    by simp
  from pull_push_require_remote [of ?some git_up] b up t
  have ps: "transitions (snd (pushToRemote git_up ?some)) = [Syncing, Idle]"
    by simp
  from none pl ps show ?thesis by blast
qed

section \<open>Initialisation\<close>

text \<open>
  Claim C4, at a vault without a repository and without a remote: the repository check
  answers true whatever the vault holds, so the status becomes idle, not offline.
\<close>

theorem initialize_without_repository:
  "\<not> repository_exists ((new_SyncManager DEFAULT_SETTINGS)\<lparr>repository_exists := False\<rparr>)
   \<and> status (initialize git_down
        ((new_SyncManager DEFAULT_SETTINGS)\<lparr>repository_exists := False\<rparr>)) = Idle
   \<and> transitions (initialize git_down
        ((new_SyncManager DEFAULT_SETTINGS)\<lparr>repository_exists := False\<rparr>)) = [Idle]"
  by (simp add: initialize_def isRepositoryInitialized_def new_SyncManager_def
      DEFAULT_SETTINGS_def updateStatus_def Let_def)

section \<open>Failure of a queued operation\<close>














section \<open>What a drain sends and leaves\<close>



lemma same_subscribers_run_git: "same_subscribers st (snd (run_git g c st))"
  by (simp add: same_subscribers_def run_git_def)


























section \<open>The retry budget\<close>




section \<open>A failure ends the drain\<close>




section \<open>The debounce window\<close>

lemma vault_events_window:
  assumes "evs \<noteq> []"
    and "within_window t0 evs"
    and "\<forall>(t, f, a) \<in> set evs. a \<in> set (eventRefs w)"
    and "timer w = None \<or> (\<exists>f a. timer w = Some (t0 + 500, f, a))"
  shows "vault_events evs (w, s) = (w\<lparr>timer := Some (fst (last evs) + 500, snd (last evs))\<rparr>, s)"
  using assms
proof (induction evs arbitrary: t0 w)
  case Nil
  then show ?case by simp
next
  case (Cons e evs)
  obtain t f a where e: "e = (t, f, a)" by (cases e)
  from Cons.prems(2) e have t: "t0 \<le> t" "t < t0 + 500" and rest: "within_window t evs"
    by simp_all
  from Cons.prems(3) e have reg: "a \<in> set (eventRefs w)" by simp
  have idle: "run_timers t (w, s) = (w, s)"
    using Cons.prems(4) t by (auto simp: run_timers_def)
  let ?w = "w\<lparr>timer := Some (t + 500, f, a)\<rparr>"
  have step: "vault_event t f a (w, s) = (?w, s)"
    using idle reg by (simp add: vault_event_def watcher_handleFileChange_def)
  show ?case
  proof (cases "evs = []")
    case True
    with step e show ?thesis by simp
  next
    case False
    have regs: "\<forall>(t, f, a) \<in> set evs. a \<in> set (eventRefs ?w)"
      using Cons.prems(3) by simp
    have pend: "timer ?w = None \<or> (\<exists>f' a'. timer ?w = Some (t + 500, f', a'))" by simp
    from Cons.IH [OF False rest regs pend] step e False show ?thesis by simp
  qed
qed

lemma last_action_single_path:
  assumes "evs \<noteq> []" and "\<forall>(t, f, a) \<in> set evs. path f = p"
  shows "last_action evs p = Some (snd (snd (last evs)))"
proof -
  have "filter (\<lambda>(t, f, a). path f = p) evs = evs"
    using assms(2) by (induction evs) auto
  with assms(1) show ?thesis
    by (cases evs) (simp_all add: last_action_def)
qed

text \<open>
  Claim C1 as stated fails. Two accepted events arrive within one window, a creation
  of \<^verbatim>\<open>a.md\<close> and then a modification of \<^verbatim>\<open>b.md\<close>. When the window has elapsed the
  callback has been called once, for \<^verbatim>\<open>b.md\<close> alone, which does not reflect the batch;
  with the coordinator as the callback, the one commit stages \<^verbatim>\<open>b.md\<close> only, under a
  message that names \<^verbatim>\<open>b.md\<close> only.
\<close>

theorem debounce_batch_counterexample:
  "(let evs = [(0, vault_file ''a.md'', Create), (100, vault_file ''b.md'', Modify)];
        calls = snd (run_timers 600
                  (vault_events evs (start record_call (new_FileWatcher DEFAULT_SETTINGS), [])));
        manager = snd (run_timers 600
                  (vault_events evs
                     (start (handleFileChange git_up) (new_FileWatcher DEFAULT_SETTINGS),
                      new_SyncManager DEFAULT_SETTINGS)))
    in one_window evs
       \<and> (\<forall>(t, f, a) \<in> set evs. shouldIgnoreFile DEFAULT_SETTINGS f = Inr False)
       \<and> calls = [(vault_file ''b.md'', Modify)]
       \<and> \<not> reflects_batch calls evs
       \<and> git_log manager = [Add [''b.md''], Status, Commit ''Updated: b.md''])"
  by code_simp

text \<open>
  Claim C1, amended. For a non-empty sequence of accepted events within one window,
  delivered to a started watcher with no timer pending, nothing reaches the callback
  before the window has elapsed, and once it has, the callback has been called exactly
  once, with the file and the action of the last event; the earlier events of the
  window are dropped. So the operation and its commit message are those of the last
  event alone, and when all events of the window are on one path, the last action
  wins.
\<close>

theorem debounce_delivers_last:
  assumes "evs \<noteq> []"
    and "one_window evs"
    and "isActive w" and "callback w = Some cb" and "timer w = None"
    and "\<forall>(t, f, a) \<in> set evs. a \<in> set (eventRefs w)"
    and "\<forall>(t, f, a) \<in> set evs. shouldIgnoreFile (fw_settings w) f = Inr False"
  shows "(\<forall>now < fst (last evs) + 500.
            snd (run_timers now (vault_events evs (w, s))) = s)
         \<and> (\<forall>now \<ge> fst (last evs) + 500.
            run_timers now (vault_events evs (w, s))
              = (w, cb (fst (snd (last evs))) (snd (snd (last evs))) s))
         \<and> ((\<forall>(t, f, a) \<in> set evs. path f = path (fst (snd (last evs)))) \<longrightarrow>
              reflects_batch [snd (last evs)] evs)"
proof -
  obtain t f a rest where evs: "evs = (t, f, a) # rest"
    using assms(1) by (cases evs) auto
  obtain tl fl al where l: "last evs = (tl, fl, al)" by (cases "last evs")
  have "within_window t evs"
    using assms(2) evs by (simp add: one_window_def)
  from vault_events_window [OF assms(1) this assms(6)] assms(5) l
  have fed: "vault_events evs (w, s) = (w\<lparr>timer := Some (tl + 500, fl, al)\<rparr>, s)"
    by simp
  have acc: "shouldIgnoreFile (fw_settings w) fl = Inr False"
    using assms(7) last_in_set [OF assms(1)] l by auto
  have w: "w\<lparr>timer := None\<rparr> = w" using assms(5) by simp
  have early: "snd (run_timers now (vault_events evs (w, s))) = s" if "now < tl + 500" for now
    using that fed by (simp add: run_timers_def)
  have late: "run_timers now (vault_events evs (w, s)) = (w, cb fl al s)"
    if "tl + 500 \<le> now" for now
    using that fed assms(3) assms(4) acc w by (simp add: run_timers_def fileChanged_def)
  have same: "reflects_batch [snd (last evs)] evs"
    if "\<forall>(t, f, a) \<in> set evs. path f = path (fst (snd (last evs)))"
  proof -
    have la: "last_action evs (path fl) = Some al"
      using last_action_single_path [OF assms(1), of "path fl"] that l by simp
    have "path f' = path fl" if "(t', f', a') \<in> set evs" for t' f' a'
      using \<open>\<forall>(t, f, a) \<in> set evs. path f = path (fst (snd (last evs)))\<close> that l by auto
    with la l show ?thesis
      by (auto simp: reflects_batch_def)
  qed
  from early late same l show ?thesis by simp
qed

theorem debounce_delivers_last_witness:
  "(let evs = [(0, vault_file ''note.md'', Create), (200, vault_file ''note.md'', Modify)];
        w = start record_call (new_FileWatcher DEFAULT_SETTINGS)
    in snd (run_timers 699 (vault_events evs (w, []))) = []
       \<and> run_timers 700 (vault_events evs (w, [])) = (w, [(vault_file ''note.md'', Modify)])
       \<and> reflects_batch [(vault_file ''note.md'', Modify)] evs)"
proof -
  let ?evs = "[(0::nat, vault_file ''note.md'', Create), (200, vault_file ''note.md'', Modify)]"
  let ?w = "start record_call (new_FileWatcher DEFAULT_SETTINGS)
              :: (TFile \<times> FileChangeAction) list FileWatcher"
  have a: "?evs \<noteq> []" by simp
  have b: "one_window ?evs" by (simp add: one_window_def)
  have c: "isActive ?w" "callback ?w = Some record_call" "timer ?w = None"
    by (simp_all add: start_def new_FileWatcher_def Let_def)
  have d: "\<forall>(t, f, a) \<in> set ?evs. a \<in> set (eventRefs ?w)"
    by (simp add: start_def new_FileWatcher_def Let_def)
  have s: "fw_settings ?w = DEFAULT_SETTINGS"
    by (simp add: start_def new_FileWatcher_def Let_def)
  have "shouldIgnoreFile DEFAULT_SETTINGS (vault_file ''note.md'') = Inr False"
    by code_simp
  then have e: "\<forall>(t, f, a) \<in> set ?evs. shouldIgnoreFile (fw_settings ?w) f = Inr False"
    by (simp add: s)
  from debounce_delivers_last [OF a b c d e, of "[]"] show ?thesis
    by (simp add: Let_def record_call_def)
qed

section \<open>The delay of the window\<close>

text \<open>
  Claim C8, at a watcher whose settings have been updated to a delay of two seconds: a
  change at time 0 reaches the callback as soon as 500 ms have passed. The handler is
  built with \<^verbatim>\<open>debounce(..., 500)\<close> and never reads \<^verbatim>\<open>debounceDelay\<close>.
\<close>

theorem debounce_delay_fixed:
  "(let w = updateSettings (DEFAULT_SETTINGS\<lparr>debounceDelay := 2000\<rparr>)
              (start record_call (new_FileWatcher DEFAULT_SETTINGS))
    in debounceDelay (fw_settings w) = 2000
       \<and> timer (fst (vault_event 0 (vault_file ''note.md'') Modify (w, [])))
           = Some (500, vault_file ''note.md'', Modify)
       \<and> snd (run_timers 500 (vault_event 0 (vault_file ''note.md'') Modify (w, [])))
           = [(vault_file ''note.md'', Modify)])"
  by code_simp

section \<open>Commit messages\<close>

lemma getSubstitution_plain:
  "CHR ''$'' \<notin> set repl \<Longrightarrow> getSubstitution matched preceding following repl = repl"
  by (induction matched preceding following repl rule: getSubstitution.induct) auto

lemma replace_from_plain:
  "CHR ''$'' \<notin> set repl \<Longrightarrow> replace_from preceding s pat repl = literal_replace s pat repl"
  by (induction s arbitrary: preceding) (simp_all add: getSubstitution_plain)

lemma capitalizeFirst_display_name:
  "capitalizeFirst (getActionDisplayName a) = getActionDisplayName a"
  by (cases a) (simp_all add: capitalizeFirst_def toUpperCase_def)

text \<open>A file name without a dollar sign is put into the template as the claim says.\<close>

lemma generateCommitMessage_plain:
  assumes "CHR ''$'' \<notin> set (name (op_file operation))"
  shows "generateCommitMessage s operation = expected_message s operation"
proof -
  have a: "CHR ''$'' \<notin> set (getActionDisplayName (action operation))"
    by (cases "action operation") simp_all
  have f: "CHR ''$'' \<notin> set (sanitizeFilename (name (op_file operation)))"
    using assms by (auto simp: sanitizeFilename_def)
  show ?thesis
    by (simp add: generateCommitMessage_def git_generateCommitMessage_def expected_message_def
        replace_def Let_def capitalizeFirst_display_name replace_from_plain [OF a]
        replace_from_plain [OF f])
qed

text \<open>
  Claim C10, at the file name made of a dollar sign, a backtick and \<^verbatim>\<open>x.md\<close>, with
  the default template. The name holds none of the characters that are replaced by an
  underscore. The replacement of \<^verbatim>\<open>{filename}\<close> expands the dollar sign and the
  backtick into the text before the placeholder, so the message is not the template
  with the sanitized name in it, and a colon stands where the file name should be. A
  name with two dollar signs loses one of them.
\<close>

theorem commit_message_dollar:
  "(let operation = \<lparr>op_file = \<lparr>path = [CHR ''$'', backtick] @ ''x.md'',
                                 name = [CHR ''$'', backtick] @ ''x.md''\<rparr>,
                      action = Create, timestamp = 0, retries = 0\<rparr>;
        priced = operation_for ''US$$.md'' Create 0
    in sanitizeFilename (name (op_file operation)) = [CHR ''$'', backtick] @ ''x.md''
       \<and> expected_message DEFAULT_SETTINGS operation = ''Created: '' @ [CHR ''$'', backtick] @ ''x.md''
       \<and> generateCommitMessage DEFAULT_SETTINGS operation = ''Created: Created: x.md''
       \<and> CHR '':'' \<in> set (drop (length ''Created: '')
                            (generateCommitMessage DEFAULT_SETTINGS operation))
       \<and> expected_message DEFAULT_SETTINGS priced = ''Created: US$$.md''
       \<and> generateCommitMessage DEFAULT_SETTINGS priced = ''Created: US$.md'')"
  by code_simp

section \<open>Exclusion patterns\<close>

text \<open>
  On patterns made of ordinary characters, dots, stars and question marks, and on paths
  without a line terminator, the filter computes the glob semantics of the
  specification: the three replacements turn each character of the pattern into the
  source of one quantified atom.
\<close>

lemma replace_all_char_Cons:
  "replace_all_char c r (x # xs) = (if x = c then r else [x]) @ replace_all_char c r xs"
  by (simp add: replace_all_char_def)

lemma replace_all_char_append:
  "replace_all_char c r (xs @ ys) = replace_all_char c r xs @ replace_all_char c r ys"
  by (simp add: replace_all_char_def)

lemma replace_all_char_Nil: "replace_all_char c r [] = []"
  by (simp add: replace_all_char_def)

lemma pattern_source:
  "replace_all_char (CHR ''?'') ''.''
     (replace_all_char (CHR ''*'') ''.*''
        (replace_all_char (CHR ''.'') [backslash, CHR ''.''] p))
     = concat (map glob_char_source p)"
proof (induction p)
  case Nil
  show ?case by (simp add: replace_all_char_Nil)
next
  case (Cons c p)
  have "replace_all_char (CHR ''?'') ''.''
          (replace_all_char (CHR ''*'') ''.*'' (if c = CHR ''.'' then [backslash, CHR ''.''] else [c]))
          = glob_char_source c"
    by (simp add: replace_all_char_Cons replace_all_char_Nil glob_char_source_def backslash_def)
  with Cons.IH show ?case
    by (simp only: replace_all_char_Cons [of "CHR ''.''"] replace_all_char_append
        list.map concat.simps)
qed

lemma tokens_glob:
  assumes "plain_pattern p"
  shows "tokens (concat (map glob_char_source p) @ ''$'')
           = Inr (concat (map glob_char_tokens p) @ [TDollar])"
  using assms
proof (induction p)
  case Nil
  show ?case by (simp add: backslash_def syntax_characters_def)
next
  case (Cons c p)
  from Cons.prems have p: "plain_pattern p"
    and c: "c \<notin> set ''^$+()[]{}|''" "c \<noteq> backslash"
    by (simp_all add: plain_pattern_def)
  from Cons.IH [OF p] c show ?case
    by (auto simp: glob_char_source_def glob_char_tokens_def syntax_characters_def backslash_def)
qed

lemma glob_tokens_head:
  "concat (map glob_char_tokens p) = []
   \<or> (\<exists>c ts. concat (map glob_char_tokens p) = TChar c # ts)
   \<or> (\<exists>ts. concat (map glob_char_tokens p) = TDot # ts)"
  by (cases p) (auto simp: glob_char_tokens_def)

lemma glob_tokens_set:
  "TCaret \<notin> set (concat (map glob_char_tokens p))
   \<and> TDollar \<notin> set (concat (map glob_char_tokens p))"
  by (induction p) (auto simp: glob_char_tokens_def)

lemma terms_literal_head:
  assumes "ts = [] \<or> (\<exists>d ts'. ts = TChar d # ts') \<or> (\<exists>ts'. ts = TDot # ts')"
  shows "terms (TChar c # ts) = map_sum id ((#) (Lit c, Once)) (terms ts)"
    and "terms (TDot # ts) = map_sum id ((#) (AnyChar, Once)) (terms ts)"
  using assms by auto

lemma terms_glob:
  "terms (concat (map glob_char_tokens p)) = Inr (map glob_char_term p)"
proof (induction p)
  case Nil
  show ?case by simp
next
  case (Cons c p)
  let ?ts = "concat (map glob_char_tokens p)"
  note lit = terms_literal_head(1) [OF glob_tokens_head [of p]]
  note dot = terms_literal_head(2) [OF glob_tokens_head [of p]]
  have head: "terms (glob_char_tokens c @ ?ts) = map_sum id ((#) (glob_char_term c)) (terms ?ts)"
  proof (cases "c = CHR ''*''")
    case True
    then have "glob_char_tokens c = [TDot, TStar]" and "glob_char_term c = (AnyChar, Star)"
      by (simp_all add: glob_char_tokens_def glob_char_term_def)
    then show ?thesis by simp
  next
    case False
    show ?thesis
    proof (cases "c = CHR ''?''")
      case True
      then have "glob_char_tokens c = [TDot]" and "glob_char_term c = (AnyChar, Once)"
        by (simp_all add: glob_char_tokens_def glob_char_term_def)
      with dot show ?thesis by simp
    next
      case other: False
      with False have "glob_char_tokens c = [TChar c]" and "glob_char_term c = (Lit c, Once)"
        by (simp_all add: glob_char_tokens_def glob_char_term_def)
      with lit [of c] show ?thesis by simp
    qed
  qed
  have "terms (concat (map glob_char_tokens (c # p))) = terms (glob_char_tokens c @ ?ts)"
    by simp
  also have "\<dots> = Inr (map glob_char_term (c # p))"
    unfolding head Cons.IH by simp
  finally show ?case .
qed

lemma matches_all_glob:
  "single_line s \<Longrightarrow> matches_all (map glob_char_term p) s = glob_match p s"
proof (induction p s rule: glob_match.induct)
  case (1 s)
  show ?case by simp
next
  case (2 p ps)
  then show ?case by (simp add: glob_char_term_def single_line_def)
next
  case (3 p ps x xs)
  from "3.prems" have x: "x \<noteq> line_feed" "x \<noteq> carriage_return" and xs: "single_line xs"
    by (auto simp: single_line_def)
  show ?case
  proof (cases "p = CHR ''*''")
    case True
    with "3.IH"(1) [OF True "3.prems"] "3.IH"(2) [OF True xs] x show ?thesis
      by (simp add: glob_char_term_def)
  next
    case False
    with "3.IH"(3) [OF False xs] x show ?thesis
      by (auto simp: glob_char_term_def)
  qed
qed

lemma matchesPattern_plain:
  assumes "plain_pattern p" and "single_line filePath"
  shows "matchesPattern filePath p = Inr (glob_match p filePath)"
proof -
  let ?ts = "concat (map glob_char_tokens p)"
  have "tokens (''^'' @ concat (map glob_char_source p) @ ''$'') = Inr (TCaret # ?ts @ [TDollar])"
    using tokens_glob [OF assms(1)] by (simp add: backslash_def)
  then show ?thesis
    using glob_tokens_set [of p] terms_glob [of p] matches_all_glob [OF assms(2), of p]
    by (simp add: matchesPattern_def pattern_source RegExp_test_def Let_def)
qed

lemma matchesAnyPattern_plain:
  assumes "\<forall>p \<in> set patterns. plain_pattern p" and "single_line filePath"
  shows "matchesAnyPattern filePath patterns = Inr (\<exists>p \<in> set patterns. glob_match p filePath)"
  using assms(1)
  by (induction patterns)
    (simp_all add: matchesPattern_plain [OF _ assms(2)] split: bool.splits)

lemma shouldIgnoreFile_plain:
  assumes "\<forall>p \<in> set (excludePatterns s). plain_pattern p" and "single_line (path f)"
  shows "shouldIgnoreFile s f
           = Inr ((\<exists>p \<in> set (excludePatterns s). glob_match p (path f))
                  \<or> startsWith (path f) ''.git/'' \<or> tempPatterns (path f))"
  using matchesAnyPattern_plain [OF assms]
  by (simp add: shouldIgnoreFile_def Let_def split: bool.splits)

text \<open>
  Claim C6, at the exclusion pattern \<^verbatim>\<open>a+b.md\<close>. As a glob the pattern matches the path
  \<^verbatim>\<open>a+b.md\<close> and no other; the filter compiles it, with the plus sign not escaped, to
  an expression that repeats the letter \<^verbatim>\<open>a\<close>. So the filter accepts the path that
  the pattern names, and rejects \<^verbatim>\<open>aab.md\<close>, which the pattern does not match and no
  fixed rule covers.
\<close>

theorem exclusion_pattern_plus:
  "(let s = DEFAULT_SETTINGS\<lparr>excludePatterns := [''a+b.md'']\<rparr>
    in glob_match ''a+b.md'' ''a+b.md''
       \<and> shouldIgnoreFile s (vault_file ''a+b.md'') = Inr False
       \<and> \<not> glob_match ''a+b.md'' ''aab.md''
       \<and> \<not> startsWith ''aab.md'' ''.git/'' \<and> \<not> tempPatterns ''aab.md''
       \<and> shouldIgnoreFile s (vault_file ''aab.md'') = Inr True)"
  by code_simp

section \<open>Announcing a status\<close>















end
